theory Spec2Isabelle
  imports Main
begin

section \<open>Python values, exceptions and the user code\<close>

text \<open>
  The module \<^verbatim>\<open>easypy/decorations.py\<close> is reflective Python. Its objects are modelled by
  the values below. A function object and an instance carry an address, so equality of two
  such values is Python's object identity (\<^verbatim>\<open>is\<close>). \<open>FunV\<close> stands for any callable
  that is not a bound method (a function, a lambda, a class, a callable instance);
  \<open>InstV c a\<close> is a non-callable instance of the user class named \<open>c\<close>.
\<close>

datatype pyval =
    NoneV
  | BoolV bool
  | IntV int
  | StrV string
  | TupleV "pyval list"
  | DictV "(string \<times> pyval) list"
  | FunV nat
  | MethodV pyval pyval
  | InstV string nat

datatype error =
    TypeError string
  | ValueError string
  | KeyError string
  | AttributeError string
  | RuntimeError string
  | Raised string

text \<open>Python's \<^verbatim>\<open>callable(x)\<close>, \<^verbatim>\<open>isinstance(x, str)\<close> and the text of \<^verbatim>\<open>'%s' % type(x)\<close>.\<close>

fun py_callable :: "pyval \<Rightarrow> bool" where
  "py_callable (FunV _) = True"
| "py_callable (MethodV _ _) = True"
| "py_callable _ = False"

fun isinstance_str :: "pyval \<Rightarrow> bool" where
  "isinstance_str (StrV _) = True"
| "isinstance_str _ = False"

fun type_name :: "pyval \<Rightarrow> string" where
  "type_name NoneV = ''NoneType''"
| "type_name (BoolV _) = ''bool''"
| "type_name (IntV _) = ''int''"
| "type_name (StrV _) = ''str''"
| "type_name (TupleV _) = ''tuple''"
| "type_name (DictV _) = ''dict''"
| "type_name (FunV _) = ''function''"
| "type_name (MethodV _ _) = ''method''"
| "type_name (InstV c _) = c"

definition type_repr :: "pyval \<Rightarrow> string" where
  "type_repr x = ''<class '' @ [CHR 0x27] @ type_name x @ [CHR 0x27] @ ''>''"

text \<open>
  The instance dictionaries (\<^verbatim>\<open>instance.__dict__\<close>) live in a heap keyed by the object; an
  object with no entry has no \<^verbatim>\<open>__dict__\<close> (a class with \<^verbatim>\<open>__slots__\<close>, an int).
  User code (the decorator factory, the decorator it returns, attribute lookup on an
  instance) is a parameter of the model: it may read and change the heap and may raise,
  and an exception does not roll back what was written before it.
\<close>

type_synonym heap = "pyval \<rightharpoonup> (string \<rightharpoonup> pyval)"

record interp =
  app :: "pyval \<Rightarrow> pyval list \<Rightarrow> heap \<Rightarrow> (error + pyval) \<times> heap"
  getattr :: "pyval \<Rightarrow> string \<Rightarrow> heap \<Rightarrow> (error + pyval) \<times> heap"

section \<open>Lazy per-instance decoration\<close>

text \<open>
  \<^verbatim>\<open>lazy_decorator\<close> keeps a callable factory as it is and turns a string into
  \<^verbatim>\<open>attrgetter(name)\<close>; the descriptor stores the result in \<^verbatim>\<open>self.decorator_factory\<close>.
\<close>

datatype factory = ByFunction pyval | AttrGetter string

record descriptor =
  desc_id :: nat
  func :: pyval
  cached :: bool
  property_name :: string
  decorator_factory :: factory

text \<open>The decimal text of \<^verbatim>\<open>id(self)\<close>, for \<^verbatim>\<open>'__property_%s' % id(self)\<close>.\<close>

fun str_of_nat :: "nat \<Rightarrow> string" where
  "str_of_nat n =
     (if n < 10 then [char_of (48 + n)]
      else str_of_nat (n div 10) @ [char_of (48 + n mod 10)])"

declare str_of_nat.simps [simp del]

text \<open>
  Reading a decimal text back; it inverts \<open>str_of_nat\<close>, which is how the keys of two
  descriptors with different \<^verbatim>\<open>id\<close>s are shown to differ.
\<close>

definition nat_of_str :: "string \<Rightarrow> nat" where
  "nat_of_str s = foldl (\<lambda>a ch. 10 * a + (of_char ch - 48)) 0 s"

text \<open>
  \<^verbatim>\<open>LazyDecoratorDescriptor.__init__\<close> on top of \<^verbatim>\<open>DecoratingDescriptor.__init__\<close>; the
  first argument is \<^verbatim>\<open>id(self)\<close>. (\<^verbatim>\<open>update_wrapper(self, func, updated=())\<close> copies the
  function's name and docstring onto the descriptor; no operation below reads them.)
\<close>

definition LazyDecoratorDescriptor :: "nat \<Rightarrow> factory \<Rightarrow> pyval \<Rightarrow> bool \<Rightarrow> descriptor" where
  "LazyDecoratorDescriptor self_id fac f c =
     \<lparr> desc_id = self_id, func = f, cached = c,
       property_name = ''__property_'' @ str_of_nat self_id,
       decorator_factory = fac \<rparr>"

text \<open>
  \<^verbatim>\<open>lazy_decorator(decorator_factory, cached)\<close>. It returns the inner \<^verbatim>\<open>wrapper\<close>, here the
  function that builds the descriptor from \<^verbatim>\<open>id(self)\<close> and \<^verbatim>\<open>func\<close>, or raises.
\<close>

definition lazy_decorator ::
  "pyval \<Rightarrow> bool \<Rightarrow> error + (nat \<Rightarrow> pyval \<Rightarrow> descriptor)" where
  "lazy_decorator df c =
     (if py_callable df then
        Inr (\<lambda>self_id f. LazyDecoratorDescriptor self_id (ByFunction df) f c)
      else (case df of
          StrV name \<Rightarrow> Inr (\<lambda>self_id f. LazyDecoratorDescriptor self_id (AttrGetter name) f c)
        | _ \<Rightarrow> Inl (TypeError
            (''decorator_factory must be callable or string, not '' @ type_repr df))))"

text \<open>
  The state the descriptor works on: the heap, and a ghost log with one entry for every
  evaluation of \<^verbatim>\<open>self.decorator_factory(instance)\<close> (descriptor id and instance). User
  code sees the heap only, so it cannot touch the log.
\<close>

record state =
  heap :: heap
  factory_calls :: "(nat \<times> pyval) list"

text \<open>\<^verbatim>\<open>function.__get__(instance, owner)\<close> of a plain function.\<close>

definition func_get :: "pyval \<Rightarrow> pyval option \<Rightarrow> pyval" where
  "func_get f instance = (case instance of None \<Rightarrow> f | Some i \<Rightarrow> MethodV f i)"

definition call_factory :: "interp \<Rightarrow> factory \<Rightarrow> pyval \<Rightarrow> heap \<Rightarrow> (error + pyval) \<times> heap" where
  "call_factory I fac instance h =
     (case fac of
        ByFunction f \<Rightarrow> app I f [instance] h
      | AttrGetter name \<Rightarrow> getattr I instance name h)"

text \<open>\<^verbatim>\<open>LazyDecoratorDescriptor._decorate(self, method, instance, owner)\<close>.\<close>

definition decorate ::
  "interp \<Rightarrow> descriptor \<Rightarrow> pyval \<Rightarrow> pyval \<Rightarrow> pyval \<Rightarrow> state \<Rightarrow> (error + pyval) \<times> state" where
  "decorate I self method instance owner s =
     (let s1 = s\<lparr>factory_calls := factory_calls s @ [(desc_id self, instance)]\<rparr> in
      case call_factory I (decorator_factory self) instance (heap s1) of
        (Inl e, h1) \<Rightarrow> (Inl e, s1\<lparr>heap := h1\<rparr>)
      | (Inr decorator, h1) \<Rightarrow>
          (case app I decorator [method] h1 of (r, h2) \<Rightarrow> (r, s1\<lparr>heap := h2\<rparr>)))"

text \<open>\<^verbatim>\<open>DecoratingDescriptor.__get__(self, instance, owner)\<close>; \<open>None\<close> is Python's \<^verbatim>\<open>None\<close>.\<close>

definition descriptor_get ::
  "interp \<Rightarrow> descriptor \<Rightarrow> pyval option \<Rightarrow> pyval \<Rightarrow> state \<Rightarrow> (error + pyval) \<times> state" where
  "descriptor_get I self instance owner s =
     (let method = func_get (func self) instance in
      case instance of
        None \<Rightarrow> (Inr method, s)
      | Some inst \<Rightarrow>
          if cached self then
            (case heap s inst of
               None \<Rightarrow> (Inl (AttributeError ''__dict__''), s)
             | Some d \<Rightarrow>
                 (case d (property_name self) of
                    Some v \<Rightarrow> (Inr v, s)
                  | None \<Rightarrow>
                      (case decorate I self method inst owner s of
                         (Inl e, s1) \<Rightarrow> (Inl e, s1)
                       | (Inr bound, s1) \<Rightarrow>
                           (case heap s1 inst of
                              None \<Rightarrow> (Inl (AttributeError ''__dict__''), s1)
                            | Some d1 \<Rightarrow>
                                (Inr bound,
                                 s1\<lparr>heap := (heap s1)(inst \<mapsto> d1(property_name self \<mapsto> bound))\<rparr>)))))
          else decorate I self method inst owner s)"


subsection \<open>A concrete class for the examples\<close>









section \<open>Reusable context managers\<close>

subsection \<open>Generators and \<^verbatim>\<open>contextlib\<close>'s generator-based context manager\<close>

text \<open>
  \<^verbatim>\<open>reusable_contextmanager\<close> works on the objects that \<^verbatim>\<open>@contextlib.contextmanager\<close>
  builds. A generator function (with the arguments it was called with) is its initial frame
  and its code. The code runs in a world \<open>'w\<close>: the objects it shares with the rest of the
  program (its arguments, its closure, globals), which every generator made from the same
  function and arguments sees and may change. Resumed in a frame by \<^verbatim>\<open>next\<close> or
  \<^verbatim>\<open>throw\<close>, the code yields a value and a new frame, returns, or raises, and leaves a new
  world. A generator object is the code and the frame it is suspended in.
\<close>

datatype send = Next | Throw error

datatype 'g outcome = Yield pyval 'g | Return | Raise error

record ('g, 'w) genfunc =
  g_init :: 'g
  g_code :: "'g \<Rightarrow> send \<Rightarrow> 'w \<Rightarrow> 'g outcome \<times> 'w"

datatype 'g frame = Fresh 'g | Suspended 'g | Finished

record ('g, 'w) generator =
  gen_code :: "'g \<Rightarrow> send \<Rightarrow> 'w \<Rightarrow> 'g outcome \<times> 'w"
  gen_frame :: "'g frame"

datatype resumed = Yielded pyval | StopIteration | Raises error

text \<open>Calling a generator function runs none of its code.\<close>

definition call_genfunc :: "('g, 'w) genfunc \<Rightarrow> ('g, 'w) generator" where
  "call_genfunc f = \<lparr> gen_code = g_code f, gen_frame = Fresh (g_init f) \<rparr>"

definition gen_step ::
  "('g, 'w) generator \<Rightarrow> 'g \<Rightarrow> send \<Rightarrow> 'w \<Rightarrow> resumed \<times> ('g, 'w) generator \<times> 'w" where
  "gen_step g fr x w =
     (case gen_code g fr x w of
        (Yield v fr', w') \<Rightarrow> (Yielded v, g\<lparr>gen_frame := Suspended fr'\<rparr>, w')
      | (Return, w') \<Rightarrow> (StopIteration, g\<lparr>gen_frame := Finished\<rparr>, w')
      | (Raise e, w') \<Rightarrow> (Raises e, g\<lparr>gen_frame := Finished\<rparr>, w'))"

text \<open>
  \<^verbatim>\<open>next(gen)\<close> and \<^verbatim>\<open>gen.throw(value)\<close>: an exception thrown into a generator that has
  not started, or has finished, comes straight back; \<^verbatim>\<open>next\<close> on a finished generator
  raises \<^verbatim>\<open>StopIteration\<close>.
\<close>

definition gen_send ::
  "('g, 'w) generator \<Rightarrow> send \<Rightarrow> 'w \<Rightarrow> resumed \<times> ('g, 'w) generator \<times> 'w" where
  "gen_send g x w =
     (case gen_frame g of
        Fresh fr \<Rightarrow> (case x of Next \<Rightarrow> gen_step g fr Next w
                               | Throw e \<Rightarrow> (Raises e, g\<lparr>gen_frame := Finished\<rparr>, w))
      | Suspended fr \<Rightarrow> gen_step g fr x w
      | Finished \<Rightarrow> (case x of Next \<Rightarrow> (StopIteration, g, w) | Throw e \<Rightarrow> (Raises e, g, w)))"

text \<open>
  \<^verbatim>\<open>gen.close()\<close>, called only on a generator that yielded a second time; the cleanup
  code it may run there is not modelled.
\<close>

definition gen_close :: "('g, 'w) generator \<Rightarrow> ('g, 'w) generator" where
  "gen_close g = g\<lparr>gen_frame := Finished\<rparr>"

text \<open>
  \<^verbatim>\<open>contextlib._GeneratorContextManager\<close> (Python 3.11): \<^verbatim>\<open>__init__\<close> calls the generator
  function and keeps it, with its arguments, for \<^verbatim>\<open>_recreate_cm\<close>, which calls it again
  with the same arguments; \<^verbatim>\<open>__enter__\<close> deletes it (\<open>None\<close> below) and runs the generator
  to its first \<^verbatim>\<open>yield\<close>; \<^verbatim>\<open>__exit__\<close> resumes the generator, with the exception of the
  \<^verbatim>\<open>with\<close> body if there is one (\<open>exc\<close>: \<open>None\<close> is \<^verbatim>\<open>(None, None, None)\<close>), and says
  whether the exception is suppressed.
\<close>

record ('g, 'w) gcm =
  gcm_func :: "('g, 'w) genfunc option"
  gcm_gen :: "('g, 'w) generator"

definition gcm_init :: "('g, 'w) genfunc \<Rightarrow> ('g, 'w) gcm" where
  "gcm_init f = \<lparr> gcm_func = Some f, gcm_gen = call_genfunc f \<rparr>"

definition gcm_recreate_cm :: "('g, 'w) gcm \<Rightarrow> error + ('g, 'w) gcm" where
  "gcm_recreate_cm self =
     (case gcm_func self of
        None \<Rightarrow> Inl (AttributeError ''func'')
      | Some f \<Rightarrow> Inr (gcm_init f))"

definition didnt :: "string \<Rightarrow> string" where
  "didnt rest = ''generator didn'' @ [CHR 0x27] @ ''t '' @ rest"

definition gcm_enter :: "('g, 'w) gcm \<Rightarrow> 'w \<Rightarrow> (error + pyval) \<times> ('g, 'w) gcm \<times> 'w" where
  "gcm_enter self w =
     (case gcm_func self of
        None \<Rightarrow> (Inl (AttributeError ''args''), self, w)
      | Some f \<Rightarrow>
          (case gen_send (gcm_gen self) Next w of
             (Yielded v, g, w') \<Rightarrow> (Inr v, \<lparr> gcm_func = None, gcm_gen = g \<rparr>, w')
           | (StopIteration, g, w') \<Rightarrow>
               (Inl (RuntimeError (didnt ''yield'')), \<lparr> gcm_func = None, gcm_gen = g \<rparr>, w')
           | (Raises e, g, w') \<Rightarrow> (Inl e, \<lparr> gcm_func = None, gcm_gen = g \<rparr>, w')))"

definition gcm_exit ::
  "('g, 'w) gcm \<Rightarrow> error option \<Rightarrow> 'w \<Rightarrow> (error + pyval) \<times> ('g, 'w) gcm \<times> 'w" where
  "gcm_exit self exc w =
     (case exc of
        None \<Rightarrow>
          (case gen_send (gcm_gen self) Next w of
             (StopIteration, g, w') \<Rightarrow> (Inr (BoolV False), self\<lparr>gcm_gen := g\<rparr>, w')
           | (Yielded v, g, w') \<Rightarrow>
               (Inl (RuntimeError (didnt ''stop'')), self\<lparr>gcm_gen := gen_close g\<rparr>, w')
           | (Raises e, g, w') \<Rightarrow> (Inl e, self\<lparr>gcm_gen := g\<rparr>, w'))
      | Some val \<Rightarrow>
          (case gen_send (gcm_gen self) (Throw val) w of
             (StopIteration, g, w') \<Rightarrow> (Inr (BoolV True), self\<lparr>gcm_gen := g\<rparr>, w')
           | (Raises e, g, w') \<Rightarrow>
               (if e = val then (Inr (BoolV False), self\<lparr>gcm_gen := g\<rparr>, w')
                else (Inl e, self\<lparr>gcm_gen := g\<rparr>, w'))
           | (Yielded v, g, w') \<Rightarrow>
               (Inl (RuntimeError (didnt ''stop after throw()'')),
                self\<lparr>gcm_gen := gen_close g\<rparr>, w')))"

subsection \<open>\<^verbatim>\<open>reusable_contextmanager\<close> and its proxy\<close>

text \<open>
  The proxy \<^verbatim>\<open>ReusableCtx\<close> closes over \<^verbatim>\<open>context_manager\<close> and has one attribute,
  \<^verbatim>\<open>self.cm\<close>, unset (\<open>None\<close>) until the first \<^verbatim>\<open>__enter__\<close>. An object handed to
  \<^verbatim>\<open>reusable_contextmanager\<close> is a generator-based context manager, the only kind with a
  \<^verbatim>\<open>_recreate_cm\<close> attribute, any other object, or such a proxy.
\<close>

record ('g, 'w) reusable_ctx =
  context_manager :: "('g, 'w) gcm"
  cm :: "('g, 'w) gcm option"

datatype ('g, 'w, 'o) ctxmgr =
    GeneratorContextManager "('g, 'w) gcm"
  | OtherObject 'o
  | ReusableCtx "('g, 'w) reusable_ctx"

fun hasattr_recreate_cm :: "('g, 'w, 'o) ctxmgr \<Rightarrow> bool" where
  "hasattr_recreate_cm (GeneratorContextManager c) = True"
| "hasattr_recreate_cm (OtherObject x) = False"
| "hasattr_recreate_cm (ReusableCtx p) = False"

definition reusable_contextmanager :: "('g, 'w, 'o) ctxmgr \<Rightarrow> ('g, 'w, 'o) ctxmgr" where
  "reusable_contextmanager c =
     (if \<not> hasattr_recreate_cm c then c
      else (case c of
          GeneratorContextManager g \<Rightarrow> ReusableCtx \<lparr> context_manager = g, cm = None \<rparr>
        | _ \<Rightarrow> c))"

text \<open>\<^verbatim>\<open>ReusableCtx.__enter__\<close> and \<^verbatim>\<open>ReusableCtx.__exit__\<close>.\<close>

definition ctx_enter ::
  "('g, 'w) reusable_ctx \<Rightarrow> 'w \<Rightarrow> (error + pyval) \<times> ('g, 'w) reusable_ctx \<times> 'w" where
  "ctx_enter self w =
     (case gcm_recreate_cm (context_manager self) of
        Inl e \<Rightarrow> (Inl e, self, w)
      | Inr new \<Rightarrow>
          (case gcm_enter new w of (r, new', w') \<Rightarrow> (r, self\<lparr>cm := Some new'\<rparr>, w')))"

definition ctx_exit ::
  "('g, 'w) reusable_ctx \<Rightarrow> error option \<Rightarrow> 'w \<Rightarrow>
   (error + pyval) \<times> ('g, 'w) reusable_ctx \<times> 'w" where
  "ctx_exit self exc w =
     (case cm self of
        None \<Rightarrow> (Inl (AttributeError ''cm''), self, w)
      | Some c \<Rightarrow>
          (case gcm_exit c exc w of
             (Inl e, c', w') \<Rightarrow> (Inl e, self\<lparr>cm := Some c'\<rparr>, w')
           | (Inr r, c', w') \<Rightarrow> (Inr NoneV, self\<lparr>cm := Some c'\<rparr>, w')))"

text \<open>
  Python's \<^verbatim>\<open>with mgr as v: body\<close>, for a context manager given by its two methods. The
  result is the body's value, \<open>None\<close> when \<^verbatim>\<open>__exit__\<close> suppressed the body's exception,
  or the exception that leaves the statement.
\<close>

fun truthy :: "pyval \<Rightarrow> bool" where
  "truthy NoneV = False"
| "truthy (BoolV b) = b"
| "truthy (IntV i) = (i \<noteq> 0)"
| "truthy (StrV s) = (s \<noteq> [])"
| "truthy (TupleV xs) = (xs \<noteq> [])"
| "truthy (DictV kvs) = (kvs \<noteq> [])"
| "truthy _ = True"

definition with_stmt ::
  "('m \<Rightarrow> 'w \<Rightarrow> (error + pyval) \<times> 'm \<times> 'w) \<Rightarrow>
   ('m \<Rightarrow> error option \<Rightarrow> 'w \<Rightarrow> (error + pyval) \<times> 'm \<times> 'w) \<Rightarrow>
   (pyval \<Rightarrow> 'w \<Rightarrow> (error + 'r) \<times> 'w) \<Rightarrow> 'm \<Rightarrow> 'w \<Rightarrow> (error + 'r option) \<times> 'm \<times> 'w" where
  "with_stmt enter exit body mgr w =
     (case enter mgr w of
        (Inl e, m1, w1) \<Rightarrow> (Inl e, m1, w1)
      | (Inr v, m1, w1) \<Rightarrow>
          (case body v w1 of
             (Inr res, w2) \<Rightarrow>
               (case exit m1 None w2 of
                  (Inl e, m2, w3) \<Rightarrow> (Inl e, m2, w3)
                | (Inr r, m2, w3) \<Rightarrow> (Inr (Some res), m2, w3))
           | (Inl e, w2) \<Rightarrow>
               (case exit m1 (Some e) w2 of
                  (Inl e', m2, w3) \<Rightarrow> (Inl e', m2, w3)
                | (Inr r, m2, w3) \<Rightarrow>
                    (if truthy r then (Inr None, m2, w3) else (Inl e, m2, w3)))))"

text \<open>
  Generator functions for the examples, with a frame counter. Two that ignore the world:
  \<^verbatim>\<open>yield 42\<close> once and then return, the first letting an exception thrown in at the
  \<^verbatim>\<open>yield\<close> pass, the second catching it. And \<^verbatim>\<open>def res(items): v = items.pop(0); yield v\<close>,
  whose world is the list \<^verbatim>\<open>items\<close> it was called with. \<open>entered f fr\<close> is a context
  manager made from \<open>f\<close>, after \<^verbatim>\<open>__enter__\<close>, with its generator in frame \<open>fr\<close>.
\<close>

definition example_genfunc :: "bool \<Rightarrow> (nat, 'w) genfunc" where
  "example_genfunc swallow =
     \<lparr> g_init = 0,
       g_code = (\<lambda>fr x w. if fr = 0 then (Yield (IntV 42) (Suc 0), w)
                           else (case x of Next \<Rightarrow> (Return, w)
                                   | Throw e \<Rightarrow> if swallow then (Return, w) else (Raise e, w))) \<rparr>"


definition entered :: "('g, 'w) genfunc \<Rightarrow> 'g frame \<Rightarrow> ('g, 'w) gcm" where
  "entered f fr = \<lparr> gcm_func = None, gcm_gen = \<lparr> gen_code = g_code f, gen_frame = fr \<rparr> \<rparr>"

definition example_proxy :: "bool \<Rightarrow> (nat, 'w) reusable_ctx" where
  "example_proxy swallow = \<lparr> context_manager = gcm_init (example_genfunc swallow), cm = None \<rparr>"


definition example_body :: "pyval \<Rightarrow> 'w \<Rightarrow> (error + pyval) \<times> 'w" where
  "example_body v w = (Inl (Raised ''boom''), w)"

section \<open>Function objects, signatures and \<^verbatim>\<open>functools.wraps\<close>\<close>

text \<open>
  \<^verbatim>\<open>inspect.Parameter\<close>: a name, a kind and a default, \<open>None\<close> for \<^verbatim>\<open>inspect._empty\<close>. A
  signature is the list of its parameters, in order.
\<close>

datatype kind = POSITIONAL_ONLY | POSITIONAL_OR_KEYWORD | VAR_POSITIONAL | KEYWORD_ONLY | VAR_KEYWORD

record parameter =
  p_name :: string
  p_kind :: kind
  p_default :: "pyval option"

type_synonym kwargs = "(string \<times> pyval) list"

text \<open>
  A function object, with the attributes this module reads or writes: \<^verbatim>\<open>__name__\<close>, the
  parameters of its own \<^verbatim>\<open>def\<close>, \<^verbatim>\<open>__wrapped__\<close>, \<^verbatim>\<open>__signature__\<close>, the plain attribute
  \<^verbatim>\<open>signature\<close>, and, for the \<^verbatim>\<open>inner\<close> that \<^verbatim>\<open>mirror_defaults\<close> returns, the variables it
  closes over (\<^verbatim>\<open>defaults\<close>, \<^verbatim>\<open>new_signature\<close>, \<^verbatim>\<open>defaults_to_override\<close>, \<^verbatim>\<open>func\<close>). A
  function with no closure is a plain \<^verbatim>\<open>def\<close> of the user.
\<close>

datatype pyfunc = PyFunc
    (fn_name: string)
    (fn_params: "parameter list")
    (fn_wrapped: "pyfunc option")
    (fn_dunder_signature: "parameter list option")
    (fn_signature: "parameter list option")
    (fn_closure: "closure option")
and closure = Closure
    (cl_defaults: "(string \<times> pyval) list")
    (cl_new_signature: "parameter list")
    (cl_defaults_to_override: "string list")
    (cl_func: pyfunc)

text \<open>
  \<^verbatim>\<open>functools.wraps(wrapped)(wrapper)\<close>, that is \<^verbatim>\<open>update_wrapper\<close>: it copies
  \<^verbatim>\<open>__name__\<close> (with \<^verbatim>\<open>__doc__\<close>, \<^verbatim>\<open>__module__\<close>, \<^verbatim>\<open>__qualname__\<close>, not modelled),
  updates the wrapper's \<^verbatim>\<open>__dict__\<close> with the wrapped function's, where \<^verbatim>\<open>__signature__\<close>
  and \<^verbatim>\<open>signature\<close> live when they are set, then sets \<^verbatim>\<open>__wrapped__\<close>, and returns the
  wrapper.
\<close>

definition wraps :: "pyfunc \<Rightarrow> pyfunc \<Rightarrow> pyfunc" where
  "wraps wrapped wrapper =
     PyFunc (fn_name wrapped) (fn_params wrapper) (Some wrapped)
       (case fn_dunder_signature wrapped of
          Some sg \<Rightarrow> Some sg | None \<Rightarrow> fn_dunder_signature wrapper)
       (case fn_signature wrapped of Some sg \<Rightarrow> Some sg | None \<Rightarrow> fn_signature wrapper)
       (fn_closure wrapper)"

text \<open>
  \<^verbatim>\<open>inspect.signature(f)\<close> for a function object: \<^verbatim>\<open>inspect.unwrap\<close> follows
  \<^verbatim>\<open>__wrapped__\<close> until an object has a \<^verbatim>\<open>__signature__\<close> or no \<^verbatim>\<open>__wrapped__\<close>; the
  result is that object's \<^verbatim>\<open>__signature__\<close> if it has one, else the parameters of its
  \<^verbatim>\<open>def\<close>. The plain attribute \<^verbatim>\<open>signature\<close> plays no part.
\<close>

fun unwrap :: "pyfunc \<Rightarrow> pyfunc" where
  "unwrap (PyFunc n ps w ds sa cl) =
     (case w of
        None \<Rightarrow> PyFunc n ps w ds sa cl
      | Some g \<Rightarrow> (if ds \<noteq> None then PyFunc n ps w ds sa cl else unwrap g))"

definition inspect_signature :: "pyfunc \<Rightarrow> parameter list" where
  "inspect_signature f =
     (let obj = unwrap f in
      case fn_dunder_signature obj of Some sg \<Rightarrow> sg | None \<Rightarrow> fn_params obj)"

section \<open>Binding arguments to a signature\<close>

text \<open>
  \<^verbatim>\<open>Signature.bind(*args, **kwargs)\<close> as in \<^verbatim>\<open>inspect.Signature._bind\<close> of Python 3.11, with
  \<^verbatim>\<open>partial=False\<close>. \<^verbatim>\<open>BoundArguments.arguments\<close> is a map from parameter names to
  values; it holds no defaults. The first loop consumes the positional arguments and
  returns the parameters still to be bound by keyword.
\<close>

definition quote :: "string \<Rightarrow> string" where
  "quote s = [CHR 0x27] @ s @ [CHR 0x27]"

fun bind_positional ::
  "parameter list \<Rightarrow> pyval list \<Rightarrow> kwargs \<Rightarrow> (string \<rightharpoonup> pyval) \<Rightarrow>
   error + ((string \<rightharpoonup> pyval) \<times> parameter list)" where
  "bind_positional [] [] kw arguments = Inr (arguments, [])"
| "bind_positional (param # rest) [] kw arguments =
     (if p_kind param = VAR_POSITIONAL then Inr (arguments, rest)
      else if map_of kw (p_name param) \<noteq> None then
        (if p_kind param = POSITIONAL_ONLY then
           Inl (TypeError (quote (p_name param)
                  @ '' parameter is positional only, but was passed as a keyword''))
         else Inr (arguments, param # rest))
      else if p_kind param = VAR_KEYWORD \<or> p_default param \<noteq> None then
        Inr (arguments, param # rest)
      else Inl (TypeError (''missing a required argument: '' @ quote (p_name param))))"
| "bind_positional [] (arg_val # arg_vals) kw arguments =
     Inl (TypeError ''too many positional arguments'')"
| "bind_positional (param # rest) (arg_val # arg_vals) kw arguments =
     (if p_kind param = VAR_KEYWORD \<or> p_kind param = KEYWORD_ONLY then
        Inl (TypeError ''too many positional arguments'')
      else if p_kind param = VAR_POSITIONAL then
        Inr (arguments(p_name param \<mapsto> TupleV (arg_val # arg_vals)), rest)
      else if map_of kw (p_name param) \<noteq> None \<and> p_kind param \<noteq> POSITIONAL_ONLY then
        Inl (TypeError (''multiple values for argument '' @ quote (p_name param)))
      else bind_positional rest arg_vals kw (arguments(p_name param \<mapsto> arg_val)))"

text \<open>
  The second loop binds the remaining parameters from the keyword arguments, popping each
  one used; what is left goes to the \<^verbatim>\<open>**kwargs\<close> parameter, if there is one.
\<close>

fun bind_keywords ::
  "parameter list \<Rightarrow> kwargs \<Rightarrow> (string \<rightharpoonup> pyval) \<Rightarrow> parameter option \<Rightarrow>
   error + (string \<rightharpoonup> pyval)" where
  "bind_keywords [] kw arguments kwargs_param =
     (case kw of
        [] \<Rightarrow> Inr arguments
      | (k, v) # kw' \<Rightarrow>
          (case kwargs_param of
             Some kp \<Rightarrow> Inr (arguments(p_name kp \<mapsto> DictV kw))
           | None \<Rightarrow> Inl (TypeError (''got an unexpected keyword argument '' @ quote k))))"
| "bind_keywords (param # rest) kw arguments kwargs_param =
     (if p_kind param = VAR_KEYWORD then bind_keywords rest kw arguments (Some param)
      else if p_kind param = VAR_POSITIONAL then bind_keywords rest kw arguments kwargs_param
      else (case map_of kw (p_name param) of
          None \<Rightarrow>
            (if p_default param = None then
               Inl (TypeError (''missing a required argument: '' @ quote (p_name param)))
             else bind_keywords rest kw arguments kwargs_param)
        | Some arg_val \<Rightarrow>
            (if p_kind param = POSITIONAL_ONLY then
               Inl (TypeError (quote (p_name param)
                      @ '' parameter is positional only, but was passed as a keyword''))
             else bind_keywords rest (filter (\<lambda>(k, v). k \<noteq> p_name param) kw)
                    (arguments(p_name param \<mapsto> arg_val)) kwargs_param)))"

definition signature_bind ::
  "parameter list \<Rightarrow> pyval list \<Rightarrow> kwargs \<Rightarrow> error + (string \<rightharpoonup> pyval)" where
  "signature_bind sg args kw =
     (case bind_positional sg args kw Map.empty of
        Inl e \<Rightarrow> Inl e
      | Inr (arguments, remaining) \<Rightarrow> bind_keywords remaining kw arguments None)"

text \<open>\<^verbatim>\<open>BoundArguments.args\<close> and \<^verbatim>\<open>BoundArguments.kwargs\<close>: both walk the signature.\<close>

fun tuple_items :: "pyval \<Rightarrow> pyval list" where
  "tuple_items (TupleV xs) = xs"
| "tuple_items _ = []"

fun dict_items :: "pyval \<Rightarrow> kwargs" where
  "dict_items (DictV kvs) = kvs"
| "dict_items _ = []"

fun bound_args :: "parameter list \<Rightarrow> (string \<rightharpoonup> pyval) \<Rightarrow> pyval list" where
  "bound_args [] arguments = []"
| "bound_args (param # rest) arguments =
     (if p_kind param = VAR_KEYWORD \<or> p_kind param = KEYWORD_ONLY then []
      else (case arguments (p_name param) of
          None \<Rightarrow> []
        | Some arg \<Rightarrow>
            (if p_kind param = VAR_POSITIONAL then tuple_items arg @ bound_args rest arguments
             else arg # bound_args rest arguments)))"

fun bound_kwargs :: "parameter list \<Rightarrow> (string \<rightharpoonup> pyval) \<Rightarrow> bool \<Rightarrow> kwargs" where
  "bound_kwargs [] arguments kwargs_started = []"
| "bound_kwargs (param # rest) arguments kwargs_started =
     (if \<not> kwargs_started \<and> p_kind param \<noteq> VAR_KEYWORD \<and> p_kind param \<noteq> KEYWORD_ONLY then
        (if arguments (p_name param) = None then bound_kwargs rest arguments True
         else bound_kwargs rest arguments False)
      else (case arguments (p_name param) of
          None \<Rightarrow> bound_kwargs rest arguments True
        | Some arg \<Rightarrow>
            (if p_kind param = VAR_KEYWORD then dict_items arg @ bound_kwargs rest arguments True
             else (p_name param, arg) # bound_kwargs rest arguments True)))"

text \<open>
  What a function's body sees when it is called: each parameter with its argument, or else
  its default (\<^verbatim>\<open>()\<close> for \<^verbatim>\<open>*args\<close>, \<^verbatim>\<open>{}\<close> for \<^verbatim>\<open>**kwargs\<close>), in the order of the
  signature, as \<^verbatim>\<open>BoundArguments.apply_defaults\<close> computes it.
\<close>

fun apply_defaults :: "parameter list \<Rightarrow> (string \<rightharpoonup> pyval) \<Rightarrow> (string \<times> pyval) list" where
  "apply_defaults [] arguments = []"
| "apply_defaults (param # rest) arguments =
     (case arguments (p_name param) of
        Some v \<Rightarrow> (p_name param, v) # apply_defaults rest arguments
      | None \<Rightarrow>
          (case p_default param of
             Some d \<Rightarrow> (p_name param, d) # apply_defaults rest arguments
           | None \<Rightarrow>
               (if p_kind param = VAR_POSITIONAL then
                  (p_name param, TupleV []) # apply_defaults rest arguments
                else if p_kind param = VAR_KEYWORD then
                  (p_name param, DictV []) # apply_defaults rest arguments
                else apply_defaults rest arguments)))"

section \<open>Signature mirroring\<close>

text \<open>
  The sentinel \<^verbatim>\<open>AUTO\<close> comes from \<^verbatim>\<open>easypy.tokens\<close>, which is not part of this module: it
  is a parameter \<open>AUTO\<close> of every definition below, and \<^verbatim>\<open>param.default is AUTO\<close> is
  equality with it.

  The \<^verbatim>\<open>defaults\<close> dictionary of \<^verbatim>\<open>mirror_defaults\<close>: the parameters of the mirrored
  function that have a default.
\<close>

definition defaults_of :: "parameter list \<Rightarrow> (string \<times> pyval) list" where
  "defaults_of sg =
     List.map_filter (\<lambda>p. case p_default p of None \<Rightarrow> None | Some d \<Rightarrow> Some (p_name p, d)) sg"

text \<open>
  \<^verbatim>\<open>new_params_generator(params, defaults_to_override)\<close>, run to its end by
  \<^verbatim>\<open>orig_signature.replace(parameters=...)\<close>: the new parameters and the names added to
  \<^verbatim>\<open>defaults_to_override\<close>, or the \<^verbatim>\<open>TypeError\<close> of the first parameter marked \<^verbatim>\<open>AUTO\<close>
  that the mirrored function has no default for. (Replacing the default of a parameter that
  has one keeps a valid signature valid, so \<^verbatim>\<open>replace\<close> adds no error of its own.)
\<close>

fun new_params_generator ::
  "pyval \<Rightarrow> string \<Rightarrow> (string \<times> pyval) list \<Rightarrow> parameter list \<Rightarrow>
   error + (parameter list \<times> string list)" where
  "new_params_generator AUTO mirrored_name defaults [] = Inr ([], [])"
| "new_params_generator AUTO mirrored_name defaults (param # params) =
     (if p_default param = Some AUTO then
        (case map_of defaults (p_name param) of
           None \<Rightarrow>
             Inl (TypeError (mirrored_name @ '' has no default value for '' @ p_name param))
         | Some default_value \<Rightarrow>
             (case new_params_generator AUTO mirrored_name defaults params of
                Inl e \<Rightarrow> Inl e
              | Inr (new_parameters, defaults_to_override) \<Rightarrow>
                  Inr (param\<lparr>p_default := Some default_value\<rparr> # new_parameters,
                       p_name param # defaults_to_override)))
      else
        (case new_params_generator AUTO mirrored_name defaults params of
           Inl e \<Rightarrow> Inl e
         | Inr (new_parameters, defaults_to_override) \<Rightarrow>
             Inr (param # new_parameters, defaults_to_override)))"

text \<open>
  The loop of \<^verbatim>\<open>inner\<close> over \<^verbatim>\<open>defaults_to_override - binding.arguments.keys()\<close>, which
  sets \<^verbatim>\<open>binding.arguments[name] = defaults[name]\<close>.
\<close>

fun inject_defaults ::
  "(string \<times> pyval) list \<Rightarrow> string list \<Rightarrow> (string \<rightharpoonup> pyval) \<Rightarrow> error + (string \<rightharpoonup> pyval)" where
  "inject_defaults defaults [] arguments = Inr arguments"
| "inject_defaults defaults (n # names) arguments =
     (case arguments n of
        Some v \<Rightarrow> inject_defaults defaults names arguments
      | None \<Rightarrow>
          (case map_of defaults n of
             None \<Rightarrow> Inl (KeyError n)
           | Some d \<Rightarrow> inject_defaults defaults names (arguments(n \<mapsto> d))))"

text \<open>
  Calling a function object. A plain \<^verbatim>\<open>def\<close> binds the arguments to its own parameters
  and runs its body: the result records which body ran and with which parameter values.
  The \<^verbatim>\<open>inner\<close> of \<^verbatim>\<open>mirror_defaults\<close> binds against \<^verbatim>\<open>new_signature\<close>, injects the
  mirrored defaults and calls \<^verbatim>\<open>func(*binding.args, **binding.kwargs)\<close>.
\<close>

datatype invocation = Invocation string "(string \<times> pyval) list"

fun call_function :: "pyfunc \<Rightarrow> pyval list \<Rightarrow> kwargs \<Rightarrow> error + invocation" where
  "call_function (PyFunc n ps w ds sa None) args kw =
     (case signature_bind ps args kw of
        Inl e \<Rightarrow> Inl e
      | Inr arguments \<Rightarrow> Inr (Invocation n (apply_defaults ps arguments)))"
| "call_function (PyFunc n ps w ds sa (Some (Closure defaults new_signature defaults_to_override f)))
       args kw =
     (case signature_bind new_signature args kw of
        Inl e \<Rightarrow> Inl e
      | Inr arguments \<Rightarrow>
          (case inject_defaults defaults defaults_to_override arguments of
             Inl e \<Rightarrow> Inl e
           | Inr arguments' \<Rightarrow>
               call_function f (bound_args new_signature arguments')
                 (bound_kwargs new_signature arguments' False)))"

text \<open>
  \<^verbatim>\<open>outer(func)\<close> and \<^verbatim>\<open>mirror_defaults(mirrored)\<close>. The new function is
  \<^verbatim>\<open>def inner(*args, **kwargs)\<close>, passed through \<^verbatim>\<open>wraps(func)\<close>, with its attribute
  \<^verbatim>\<open>signature\<close> set afterwards.
\<close>

definition inner_params :: "parameter list" where
  "inner_params =
     [\<lparr> p_name = ''args'', p_kind = VAR_POSITIONAL, p_default = None \<rparr>,
      \<lparr> p_name = ''kwargs'', p_kind = VAR_KEYWORD, p_default = None \<rparr>]"

definition set_signature :: "parameter list \<Rightarrow> pyfunc \<Rightarrow> pyfunc" where
  "set_signature sg f =
     PyFunc (fn_name f) (fn_params f) (fn_wrapped f) (fn_dunder_signature f) (Some sg)
       (fn_closure f)"

definition outer :: "pyval \<Rightarrow> string \<Rightarrow> (string \<times> pyval) list \<Rightarrow> pyfunc \<Rightarrow> error + pyfunc" where
  "outer AUTO mirrored_name defaults f =
     (let orig_signature = inspect_signature f in
      case new_params_generator AUTO mirrored_name defaults orig_signature of
        Inl e \<Rightarrow> Inl e
      | Inr (new_signature, defaults_to_override) \<Rightarrow>
          Inr (set_signature new_signature
                 (wraps f (PyFunc ''inner'' inner_params None None None
                    (Some (Closure defaults new_signature defaults_to_override f))))))"

definition mirror_defaults :: "pyval \<Rightarrow> pyfunc \<Rightarrow> pyfunc \<Rightarrow> error + pyfunc" where
  "mirror_defaults AUTO mirrored =
     (let defaults = defaults_of (inspect_signature mirrored) in
      outer AUTO (fn_name mirrored) defaults)"

text \<open>The functions of the docstring: \<^verbatim>\<open>foo(a=1, b=2, c=3)\<close> and \<^verbatim>\<open>bar(a=AUTO, b=4, c=AUTO)\<close>.\<close>

definition pk :: "string \<Rightarrow> pyval \<Rightarrow> parameter" where
  "pk n d = \<lparr> p_name = n, p_kind = POSITIONAL_OR_KEYWORD, p_default = Some d \<rparr>"

definition example_foo :: pyfunc where
  "example_foo =
     PyFunc ''foo'' [pk ''a'' (IntV 1), pk ''b'' (IntV 2), pk ''c'' (IntV 3)] None None None None"

definition example_bar :: "pyval \<Rightarrow> pyfunc" where
  "example_bar AUTO =
     PyFunc ''bar'' [pk ''a'' AUTO, pk ''b'' (IntV 4), pk ''c'' AUTO] None None None None"

definition example_token :: pyval where
  "example_token = InstV ''Token'' 0"

definition example_qux :: "pyval \<Rightarrow> pyfunc" where
  "example_qux AUTO = PyFunc ''qux'' [pk ''a'' AUTO, pk ''d'' AUTO] None None None None"

definition example_wrapped_bar :: pyfunc where
  "example_wrapped_bar =
     PyFunc ''bar'' inner_params (Some (example_bar example_token)) None
       (Some [pk ''a'' (IntV 1), pk ''b'' (IntV 4), pk ''c'' (IntV 3)])
       (Some (Closure [(''a'', IntV 1), (''b'', IntV 2), (''c'', IntV 3)]
                [pk ''a'' (IntV 1), pk ''b'' (IntV 4), pk ''c'' (IntV 3)]
                [''a'', ''c''] (example_bar example_token)))"

section \<open>Decorator-signature adapters\<close>

text \<open>
  A decorator-construction function \<^verbatim>\<open>deco(func, **kwargs)\<close> is user code: a function from
  the target and the options to the decorated callable, or an exception.
  \<^verbatim>\<open>functools.partial(deco, **kwargs)\<close> is an object holding \<^verbatim>\<open>deco\<close> and the options;
  called with a target and more options it calls \<^verbatim>\<open>deco\<close> with the options merged, the
  call's own taking precedence.
\<close>

type_synonym deco = "pyfunc \<Rightarrow> kwargs \<Rightarrow> error + pyfunc"

datatype partial = Partial deco kwargs

definition merge_kwargs :: "kwargs \<Rightarrow> kwargs \<Rightarrow> kwargs" where
  "merge_kwargs kw kw2 = filter (\<lambda>(k, v). map_of kw2 k = None) kw @ kw2"

fun call_partial :: "partial \<Rightarrow> pyfunc \<Rightarrow> kwargs \<Rightarrow> error + pyfunc" where
  "call_partial (Partial d kw) f kw2 = d f (merge_kwargs kw kw2)"

text \<open>
  \<^verbatim>\<open>parametrizeable_decorator(deco)\<close> is the function \<^verbatim>\<open>inner(func=None, **kwargs)\<close>; its
  result is a \<^verbatim>\<open>partial\<close> object or the decorated callable. \<^verbatim>\<open>wrapper_decorator(deco)\<close>
  is \<^verbatim>\<open>inner(func)\<close>.
\<close>

definition parametrizeable_decorator ::
  "deco \<Rightarrow> pyfunc option \<Rightarrow> kwargs \<Rightarrow> error + (partial + pyfunc)" where
  "parametrizeable_decorator d f kw =
     (case f of
        None \<Rightarrow> Inr (Inl (Partial d kw))
      | Some g \<Rightarrow>
          (case d g kw of
             Inl e \<Rightarrow> Inl e
           | Inr decorated \<Rightarrow> Inr (Inr (wraps g decorated))))"

definition wrapper_decorator :: "(pyfunc \<Rightarrow> error + pyfunc) \<Rightarrow> pyfunc \<Rightarrow> error + pyfunc" where
  "wrapper_decorator d f =
     (case d f of Inl e \<Rightarrow> Inl e | Inr decorated \<Rightarrow> Inr (wraps f decorated))"

text \<open>
  A decorator-construction function for the examples: it returns a new
  \<^verbatim>\<open>def wrapper(*args, **kwargs)\<close> whatever the target and the options; and a target
  \<^verbatim>\<open>def f()\<close>.
\<close>

definition example_deco :: deco where
  "example_deco f kw = Inr (PyFunc ''wrapper'' inner_params None None None None)"

definition example_f :: pyfunc where
  "example_f = PyFunc ''f'' [] None None None None"

section \<open>Properties of lazy decoration\<close>










text \<open>Descriptors with different \<^verbatim>\<open>id\<close>s use different keys of the instance's \<^verbatim>\<open>__dict__\<close>.\<close>

lemma nat_of_str_of_nat: "nat_of_str (str_of_nat n) = n"
proof (induction n rule: str_of_nat.induct)
  case (1 n)
  show ?case
  proof (cases "n < 10")
    case True
    then show ?thesis by (subst str_of_nat.simps) (simp add: nat_of_str_def)
  next
    case False
    have "n mod 10 < 10" by simp
    then have m: "(48 + n mod 10) mod 256 = 48 + n mod 10" by simp
    from False 1 have ih: "nat_of_str (str_of_nat (n div 10)) = n div 10" by simp
    show ?thesis using False ih m by (subst str_of_nat.simps) (simp add: nat_of_str_def)
  qed
qed

lemma str_of_nat_inject: "str_of_nat m = str_of_nat n \<Longrightarrow> m = n"
  by (metis nat_of_str_of_nat)

lemma property_name_distinct:
  "i \<noteq> j \<Longrightarrow>
   property_name (LazyDecoratorDescriptor i fa f c) \<noteq> property_name (LazyDecoratorDescriptor j fb g e)"
  by (auto simp: LazyDecoratorDescriptor_def dest: str_of_nat_inject)

text \<open>
  Claim C9. \<^verbatim>\<open>lazy_decorator\<close> raises exactly when its \<^verbatim>\<open>decorator_factory\<close> is neither
  callable nor a string; what it raises is a \<^verbatim>\<open>TypeError\<close> whose message ends with the
  argument's type. For a callable or a string it returns the decorator and raises nothing.
\<close>

theorem lazy_decorator_type_error:
  "(if py_callable df \<or> isinstance_str df then \<exists>w. lazy_decorator df c = Inr w
    else lazy_decorator df c =
      Inl (TypeError (''decorator_factory must be callable or string, not '' @ type_repr df)))"
  by (cases df) (simp_all add: lazy_decorator_def)

theorem lazy_decorator_type_error_witness:
  "lazy_decorator (IntV 3) True =
     Inl (TypeError (''decorator_factory must be callable or string, not <class ''
                     @ [CHR 0x27] @ ''int'' @ [CHR 0x27] @ ''>''))
   \<and> (\<exists>w. lazy_decorator (StrV ''decorator_method'') False = Inr w)
   \<and> (\<exists>w. lazy_decorator (FunV 1) False = Inr w)"
  using lazy_decorator_type_error [of "IntV 3" True]
        lazy_decorator_type_error [of "StrV ''decorator_method''" False]
        lazy_decorator_type_error [of "FunV 1" False]
  by (simp add: type_repr_def)

text \<open>
  Claim C7. Read through the class (\<^verbatim>\<open>instance is None\<close>), the attribute is the plain
  function the descriptor was built from: the state is unchanged, so the decorator factory
  was not invoked (nothing is logged) and nothing was stored.
\<close>

theorem class_access_returns_plain_function:
  "descriptor_get I d None owner s = (Inr (func d), s)"
  by (simp add: descriptor_get_def func_get_def)







section \<open>Properties of the reusable context manager\<close>

text \<open>
  Claim C8. An object without the \<^verbatim>\<open>_recreate_cm\<close> attribute is returned as it is: the
  result is the argument, and no proxy is built.
\<close>

theorem not_recreatable_returned_unchanged:
  "\<not> hasattr_recreate_cm c \<Longrightarrow> reusable_contextmanager c = c"
  by (simp add: reusable_contextmanager_def)

theorem not_recreatable_returned_unchanged_witness:
  "reusable_contextmanager (OtherObject (5::nat) :: (nat, unit, nat) ctxmgr) = OtherObject 5
   \<and> reusable_contextmanager
        (ReusableCtx \<lparr> context_manager = gcm_init (example_genfunc False), cm = None \<rparr>
           :: (nat, unit, nat) ctxmgr)
      = ReusableCtx \<lparr> context_manager = gcm_init (example_genfunc False), cm = None \<rparr>"
  using not_recreatable_returned_unchanged [of "OtherObject (5::nat) :: (nat, unit, nat) ctxmgr"]
        not_recreatable_returned_unchanged
          [of "ReusableCtx \<lparr> context_manager = gcm_init (example_genfunc False), cm = None \<rparr>
                 :: (nat, unit, nat) ctxmgr"]
  by simp



lemma ctx_exit_returns_None:
  "cm p = Some c \<Longrightarrow> gcm_exit c exc w = (Inr r, c', w') \<Longrightarrow>
   ctx_exit p exc w = (Inr NoneV, p\<lparr>cm := Some c'\<rparr>, w')"
  by (simp add: ctx_exit_def)

lemma ctx_exit_never_truthy:
  "ctx_exit p exc w = (Inr r, p', w') \<Longrightarrow> r = NoneV"
  by (auto simp: ctx_exit_def split: option.splits prod.splits sum.splits)

text \<open>The contrast: the original context manager cannot be entered a second time.\<close>

lemma gcm_enter_twice_fails:
  "gcm_enter c w = (r, c1, w1) \<Longrightarrow> fst (gcm_enter c1 w2) = Inl (AttributeError ''args'')"
  by (auto simp: gcm_enter_def split: option.splits prod.splits resumed.splits)



lemma with_proxy_propagates:
  assumes en: "ctx_enter p w = (Inr v, p1, w1)" and b: "body v w1 = (Inl e, w2)"
  shows "(\<exists>e'. fst (with_stmt ctx_enter ctx_exit body p w) = Inl e')
         \<and> (\<forall>r p2 w3. ctx_exit p1 (Some e) w2 = (Inr r, p2, w3) \<longrightarrow>
               with_stmt ctx_enter ctx_exit body p w = (Inl e, p2, w3))"
proof -
  obtain x p2 w3 where ex: "ctx_exit p1 (Some e) w2 = (x, p2, w3)"
    by (cases "ctx_exit p1 (Some e) w2")
  show ?thesis
  proof (cases x)
    case (Inl e')
    then show ?thesis using en b ex by (simp add: with_stmt_def)
  next
    case (Inr r)
    then have "r = NoneV"
      using ctx_exit_never_truthy [of p1 "Some e" w2 r p2 w3] ex by simp
    then show ?thesis using en b ex Inr by (simp add: with_stmt_def)
  qed
qed

text \<open>
  Claim C10. Whatever the underlying \<^verbatim>\<open>__exit__\<close> returns, the proxy's \<^verbatim>\<open>__exit__\<close>
  returns \<^verbatim>\<open>None\<close>. So a \<^verbatim>\<open>with\<close> statement on the proxy whose body raises never
  completes normally: the body's exception leaves the statement whenever the proxy's
  \<^verbatim>\<open>__exit__\<close> returns (also when the underlying one asked to suppress it), and otherwise
  the exception raised by \<^verbatim>\<open>__exit__\<close> does.
\<close>

theorem proxy_exit_discards_result:
  "(cm p = Some c \<longrightarrow> gcm_exit c exc w = (Inr r, c', w') \<longrightarrow>
      ctx_exit p exc w = (Inr NoneV, p\<lparr>cm := Some c'\<rparr>, w'))
   \<and> (ctx_enter p w = (Inr v, p1, w1) \<longrightarrow> body v w1 = (Inl e, w2) \<longrightarrow>
        (\<exists>e'. fst (with_stmt ctx_enter ctx_exit body p w) = Inl e')
        \<and> (\<forall>r p2 w3. ctx_exit p1 (Some e) w2 = (Inr r, p2, w3) \<longrightarrow>
               with_stmt ctx_enter ctx_exit body p w = (Inl e, p2, w3)))"
  using ctx_exit_returns_None [of p c exc w r c' w'] with_proxy_propagates [of p w v p1 w1 body e w2]
  by blast

lemma example_enter:
  "gcm_enter (gcm_init (example_genfunc sw)) w =
     (Inr (IntV 42), entered (example_genfunc sw) (Suspended (Suc 0)), w)"
  by (simp add: gcm_enter_def gcm_init_def call_genfunc_def gen_send_def gen_step_def
      example_genfunc_def entered_def)

lemma example_exit_normal:
  "gcm_exit (entered (example_genfunc sw) (Suspended (Suc 0))) None w =
     (Inr (BoolV False), entered (example_genfunc sw) Finished, w)"
  by (simp add: gcm_exit_def gen_send_def gen_step_def example_genfunc_def entered_def)

lemma example_exit_swallow:
  "gcm_exit (entered (example_genfunc True) (Suspended (Suc 0))) (Some e) w =
     (Inr (BoolV True), entered (example_genfunc True) Finished, w)"
  by (simp add: gcm_exit_def gen_send_def gen_step_def example_genfunc_def entered_def)





theorem proxy_exit_discards_result_witness:
  "fst (with_stmt ctx_enter ctx_exit example_body (example_proxy True) ()) = Inl (Raised ''boom'')
   \<and> fst (with_stmt gcm_enter gcm_exit example_body (gcm_init (example_genfunc True)) ()) = Inr None"
proof -
  let ?c1 = "entered (example_genfunc True) (Suspended (Suc 0)) :: (nat, unit) gcm"
  let ?c2 = "entered (example_genfunc True) Finished :: (nat, unit) gcm"
  let ?p1 = "(example_proxy True)\<lparr>cm := Some ?c1\<rparr>"
  have en: "ctx_enter (example_proxy True) () = (Inr (IntV 42), ?p1, ())"
    by (simp add: ctx_enter_def gcm_recreate_cm_def example_proxy_def gcm_init_def
        example_enter [unfolded gcm_init_def])
  have b: "example_body (IntV 42) () = (Inl (Raised ''boom''), ())"
    by (simp add: example_body_def)
  have ex: "ctx_exit ?p1 (Some (Raised ''boom'')) () = (Inr NoneV, ?p1\<lparr>cm := Some ?c2\<rparr>, ())"
    by (simp add: ctx_exit_def example_exit_swallow)
  have direct: "fst (with_stmt gcm_enter gcm_exit example_body
                       (gcm_init (example_genfunc True)) ()) = Inr None"
    by (simp add: with_stmt_def example_enter example_body_def example_exit_swallow)
  from proxy_exit_discards_result [where p = "example_proxy True" and w = "()" and v = "IntV 42"
          and ?p1.0 = ?p1 and ?w1.0 = "()" and body = example_body and e = "Raised ''boom''"
          and ?w2.0 = "()"] en b ex
  have "with_stmt ctx_enter ctx_exit example_body (example_proxy True) ()
          = (Inl (Raised ''boom''), ?p1\<lparr>cm := Some ?c2\<rparr>, ())"
    by blast
  then show ?thesis using direct by simp
qed

section \<open>Properties of signature mirroring\<close>

lemma map_of_defaults_of_None:
  "map_of (defaults_of sg) n = None \<longleftrightarrow> (\<forall>m \<in> set sg. p_name m = n \<longrightarrow> p_default m = None)"
  by (induction sg) (auto simp: defaults_of_def map_filter_simps split: option.splits)

lemma new_params_generator_ok:
  "new_params_generator AUTO m defaults params = Inr (ns, ov) \<Longrightarrow>
   ns = map (\<lambda>p. if p_default p = Some AUTO then p\<lparr>p_default := map_of defaults (p_name p)\<rparr> else p)
          params
   \<and> ov = map p_name (filter (\<lambda>p. p_default p = Some AUTO) params)
   \<and> (\<forall>p \<in> set params. p_default p = Some AUTO \<longrightarrow> map_of defaults (p_name p) \<noteq> None)"
proof (induction params arbitrary: ns ov)
  case Nil
  then show ?case by simp
next
  case (Cons param params)
  then show ?case
    by (auto split: if_splits option.splits sum.splits prod.splits)
qed

lemma new_params_generator_error:
  "p \<in> set params \<Longrightarrow> p_default p = Some AUTO \<Longrightarrow> map_of defaults (p_name p) = None \<Longrightarrow>
   \<exists>q \<in> set params. p_default q = Some AUTO \<and> map_of defaults (p_name q) = None
     \<and> new_params_generator AUTO m defaults params =
         Inl (TypeError (m @ '' has no default value for '' @ p_name q))"
proof (induction params)
  case Nil
  then show ?case by simp
next
  case (Cons param params)
  show ?case
  proof (cases "p_default param = Some AUTO \<and> map_of defaults (p_name param) = None")
    case True
    then show ?thesis by auto
  next
    case False
    then have "p \<in> set params" using Cons.prems by auto
    from Cons.IH [OF this Cons.prems(2,3)] obtain q where
      q: "q \<in> set params" "p_default q = Some AUTO" "map_of defaults (p_name q) = None"
         "new_params_generator AUTO m defaults params =
            Inl (TypeError (m @ '' has no default value for '' @ p_name q))"
      by blast
    then show ?thesis using False
      by (intro bexI [of _ q]) (auto split: option.splits)
  qed
qed

text \<open>
  Claim C4. If the target has a parameter whose default is \<^verbatim>\<open>AUTO\<close> and no parameter of
  that name on the mirrored function has a default, then applying the decorator raises:
  no wrapped function is returned. The exception is a \<^verbatim>\<open>TypeError\<close> whose message is the
  mirrored function's \<^verbatim>\<open>__name__\<close>, \<^verbatim>\<open>has no default value for\<close> and the name of such a
  parameter (the first one in the target's signature).
\<close>

theorem mirror_defaults_missing_default:
  assumes "p \<in> set (inspect_signature target)" and "p_default p = Some AUTO"
      and "\<forall>m \<in> set (inspect_signature mirrored). p_name m = p_name p \<longrightarrow> p_default m = None"
  shows "\<exists>q \<in> set (inspect_signature target).
           p_default q = Some AUTO
           \<and> (\<forall>m \<in> set (inspect_signature mirrored). p_name m = p_name q \<longrightarrow> p_default m = None)
           \<and> mirror_defaults AUTO mirrored target =
               Inl (TypeError (fn_name mirrored @ '' has no default value for '' @ p_name q))"
proof -
  have "map_of (defaults_of (inspect_signature mirrored)) (p_name p) = None"
    using assms(3) by (simp add: map_of_defaults_of_None)
  from new_params_generator_error [OF assms(1,2) this, of "fn_name mirrored"]
  show ?thesis
    by (auto simp: mirror_defaults_def outer_def Let_def map_of_defaults_of_None)
qed

lemma example_sigs:
  "inspect_signature example_foo = [pk ''a'' (IntV 1), pk ''b'' (IntV 2), pk ''c'' (IntV 3)]"
  "inspect_signature (example_bar A) = [pk ''a'' A, pk ''b'' (IntV 4), pk ''c'' A]"
  "inspect_signature (example_qux A) = [pk ''a'' A, pk ''d'' A]"
  by (simp_all add: inspect_signature_def example_foo_def example_bar_def example_qux_def)

theorem mirror_defaults_missing_default_witness:
  "mirror_defaults example_token example_foo (example_qux example_token) =
     Inl (TypeError ''foo has no default value for d'')"
proof -
  have fn: "fn_name example_foo = ''foo''" by (simp add: example_foo_def)
  from mirror_defaults_missing_default [of "pk ''d'' example_token"
         "example_qux example_token" example_token example_foo]
  show ?thesis
    by (auto simp: example_sigs pk_def fn)
qed

lemma example_defaults:
  "defaults_of [pk ''a'' (IntV 1), pk ''b'' (IntV 2), pk ''c'' (IntV 3)] =
     [(''a'', IntV 1), (''b'', IntV 2), (''c'', IntV 3)]"
  by (simp add: defaults_of_def map_filter_simps pk_def)

lemma example_mirror:
  "AUTO \<noteq> IntV 4 \<Longrightarrow>
   mirror_defaults AUTO example_foo (example_bar AUTO) =
     Inr (PyFunc ''bar'' inner_params (Some (example_bar AUTO)) None
       (Some [pk ''a'' (IntV 1), pk ''b'' (IntV 4), pk ''c'' (IntV 3)])
       (Some (Closure [(''a'', IntV 1), (''b'', IntV 2), (''c'', IntV 3)]
                [pk ''a'' (IntV 1), pk ''b'' (IntV 4), pk ''c'' (IntV 3)]
                [''a'', ''c''] (example_bar AUTO))))"
  by (simp add: mirror_defaults_def outer_def Let_def example_sigs example_defaults
      set_signature_def wraps_def)
     (simp add: pk_def example_foo_def example_bar_def)

lemma example_call:
  "call_function (PyFunc ''bar'' inner_params (Some (example_bar AUTO)) None
       (Some [pk ''a'' (IntV 1), pk ''b'' (IntV 4), pk ''c'' (IntV 3)])
       (Some (Closure [(''a'', IntV 1), (''b'', IntV 2), (''c'', IntV 3)]
                [pk ''a'' (IntV 1), pk ''b'' (IntV 4), pk ''c'' (IntV 3)]
                [''a'', ''c''] (example_bar AUTO)))) [] [] =
     Inr (Invocation ''bar'' [(''a'', IntV 1), (''b'', IntV 4), (''c'', IntV 3)])"
  by (simp add: signature_bind_def pk_def example_bar_def)

text \<open>
  Claim C2. With \<^verbatim>\<open>foo(a=1, b=2, c=3)\<close> mirrored and \<^verbatim>\<open>bar(a=AUTO, b=4, c=AUTO)\<close> as the
  target (the sentinel being any value other than the integer 4), decoration succeeds and
  calling the wrapped function with no arguments runs the body of \<^verbatim>\<open>bar\<close> with
  \<^verbatim>\<open>a=1, b=4, c=3\<close>: the parameters marked \<^verbatim>\<open>AUTO\<close> get the mirrored defaults, and
  \<^verbatim>\<open>b\<close> keeps the target's own.
\<close>

theorem mirror_defaults_docstring_example:
  "AUTO \<noteq> IntV 4 \<Longrightarrow>
   \<exists>w. mirror_defaults AUTO example_foo (example_bar AUTO) = Inr w
     \<and> call_function w [] [] =
         Inr (Invocation ''bar'' [(''a'', IntV 1), (''b'', IntV 4), (''c'', IntV 3)])"
  using example_mirror [of AUTO] example_call [of AUTO] by simp

theorem mirror_defaults_docstring_example_witness:
  "\<exists>w. mirror_defaults example_token example_foo (example_bar example_token) = Inr w
     \<and> call_function w [] [] =
         Inr (Invocation ''bar'' [(''a'', IntV 1), (''b'', IntV 4), (''c'', IntV 3)])"
  using mirror_defaults_docstring_example [of example_token] by (simp add: example_token_def)

lemma inspect_signature_wraps:
  "fn_dunder_signature g = None \<Longrightarrow>
   inspect_signature (set_signature sg (wraps f g)) = inspect_signature f"
  by (cases f) (simp add: inspect_signature_def set_signature_def wraps_def split: option.splits)

lemma mirror_defaults_result:
  assumes "mirror_defaults AUTO mirrored target = Inr w"
  shows "\<exists>new_signature ov.
           new_params_generator AUTO (fn_name mirrored) (defaults_of (inspect_signature mirrored))
             (inspect_signature target) = Inr (new_signature, ov)
           \<and> fn_signature w = Some new_signature
           \<and> inspect_signature w = inspect_signature target"
  using assms
  by (auto simp: mirror_defaults_def outer_def Let_def inspect_signature_wraps
      split: sum.splits prod.splits)
     (simp add: set_signature_def)

text \<open>
  Claim C6, as amended. When decoration succeeds, the attribute \<^verbatim>\<open>signature\<close> of the
  wrapped callable is the target's signature with the default of every parameter marked
  \<^verbatim>\<open>AUTO\<close> replaced by the mirrored function's default for that name, which exists; it
  holds no \<^verbatim>\<open>AUTO\<close> if no default of the mirrored function is \<^verbatim>\<open>AUTO\<close> itself. What
  \<^verbatim>\<open>inspect.signature\<close> reports for the wrapped callable is still the target's signature.
\<close>

theorem mirror_exposes_signature_attribute:
  assumes "mirror_defaults AUTO mirrored target = Inr w"
  shows "fn_signature w =
           Some (map (\<lambda>p. if p_default p = Some AUTO
                           then p\<lparr>p_default :=
                                    map_of (defaults_of (inspect_signature mirrored)) (p_name p)\<rparr>
                           else p)
                   (inspect_signature target))
         \<and> (\<forall>p \<in> set (inspect_signature target). p_default p = Some AUTO \<longrightarrow>
               map_of (defaults_of (inspect_signature mirrored)) (p_name p) \<noteq> None)
         \<and> ((\<forall>d \<in> snd ` set (defaults_of (inspect_signature mirrored)). d \<noteq> AUTO) \<longrightarrow>
              (\<forall>sg q. fn_signature w = Some sg \<longrightarrow> q \<in> set sg \<longrightarrow> p_default q \<noteq> Some AUTO))
         \<and> inspect_signature w = inspect_signature target"
proof -
  from mirror_defaults_result [OF assms] obtain ns ov where
    g: "new_params_generator AUTO (fn_name mirrored) (defaults_of (inspect_signature mirrored))
          (inspect_signature target) = Inr (ns, ov)"
    and a: "fn_signature w = Some ns" and i: "inspect_signature w = inspect_signature target"
    by blast
  note ok = new_params_generator_ok [OF g]
  have clean: "\<forall>q \<in> set ns. p_default q \<noteq> Some AUTO"
    if "\<forall>d \<in> snd ` set (defaults_of (inspect_signature mirrored)). d \<noteq> AUTO"
  proof
    fix q assume "q \<in> set ns"
    then obtain p where p: "p \<in> set (inspect_signature target)"
      and q: "q = (if p_default p = Some AUTO
                   then p\<lparr>p_default := map_of (defaults_of (inspect_signature mirrored)) (p_name p)\<rparr>
                   else p)"
      using ok by auto
    show "p_default q \<noteq> Some AUTO"
    proof (cases "p_default p = Some AUTO")
      case True
      then have "p_default q = map_of (defaults_of (inspect_signature mirrored)) (p_name p)"
        using q by simp
      moreover have "map_of (defaults_of (inspect_signature mirrored)) (p_name p) \<noteq> Some AUTO"
        using that map_of_SomeD [of "defaults_of (inspect_signature mirrored)" "p_name p" AUTO]
        by force
      ultimately show ?thesis by simp
    next
      case False
      then show ?thesis using q by simp
    qed
  qed
  have c1: "fn_signature w =
           Some (map (\<lambda>p. if p_default p = Some AUTO
                           then p\<lparr>p_default :=
                                    map_of (defaults_of (inspect_signature mirrored)) (p_name p)\<rparr>
                           else p)
                   (inspect_signature target))"
    using ok a by simp
  have c2: "\<forall>p \<in> set (inspect_signature target). p_default p = Some AUTO \<longrightarrow>
               map_of (defaults_of (inspect_signature mirrored)) (p_name p) \<noteq> None"
    using ok by simp
  have c3: "(\<forall>d \<in> snd ` set (defaults_of (inspect_signature mirrored)). d \<noteq> AUTO) \<longrightarrow>
              (\<forall>sg q. fn_signature w = Some sg \<longrightarrow> q \<in> set sg \<longrightarrow> p_default q \<noteq> Some AUTO)"
  proof (intro impI allI)
    fix sg q
    assume d: "\<forall>d \<in> snd ` set (defaults_of (inspect_signature mirrored)). d \<noteq> AUTO"
      and sg: "fn_signature w = Some sg" and q: "q \<in> set sg"
    from sg a have "sg = ns" by simp
    with q clean [OF d] show "p_default q \<noteq> Some AUTO" by blast
  qed
  show ?thesis
    by (intro conjI) (rule c1, rule c2, rule c3, rule i)
qed

theorem mirror_exposes_signature_attribute_witness:
  "fn_signature example_wrapped_bar =
     Some [pk ''a'' (IntV 1), pk ''b'' (IntV 4), pk ''c'' (IntV 3)]
   \<and> inspect_signature example_wrapped_bar = inspect_signature (example_bar example_token)"
proof -
  have m: "mirror_defaults example_token example_foo (example_bar example_token) =
             Inr example_wrapped_bar"
    using example_mirror [of example_token]
    by (simp add: example_token_def example_wrapped_bar_def)
  from mirror_exposes_signature_attribute [OF m]
  show ?thesis
    by (simp add: example_sigs example_defaults) (simp add: pk_def example_token_def)
qed

text \<open>
  Claim C6 as stated fails: for the functions of the docstring, \<^verbatim>\<open>inspect.signature\<close> of
  the wrapped \<^verbatim>\<open>bar\<close> follows \<^verbatim>\<open>__wrapped__\<close> to \<^verbatim>\<open>bar\<close> and shows the defaults
  \<^verbatim>\<open>AUTO, 4, AUTO\<close>. Only the plain attribute \<^verbatim>\<open>signature\<close> holds \<^verbatim>\<open>1, 4, 3\<close>.
\<close>

theorem introspected_signature_keeps_AUTO:
  "mirror_defaults example_token example_foo (example_bar example_token) = Inr example_wrapped_bar
   \<and> map p_default (inspect_signature example_wrapped_bar) =
       [Some example_token, Some (IntV 4), Some example_token]"
proof -
  have m: "mirror_defaults example_token example_foo (example_bar example_token) =
             Inr example_wrapped_bar"
    using example_mirror [of example_token]
    by (simp add: example_token_def example_wrapped_bar_def)
  have "inspect_signature example_wrapped_bar = inspect_signature (example_bar example_token)"
    by (simp add: example_wrapped_bar_def inspect_signature_def example_bar_def)
  then show ?thesis using m by (simp add: example_sigs pk_def)
qed

section \<open>Properties of the decorator-signature adapters\<close>

lemma merge_kwargs_empty: "merge_kwargs kw [] = kw"
  by (simp add: merge_kwargs_def)

lemma two_step_shape:
  "parametrizeable_decorator d None kw = Inr (Inl (Partial d kw))"
  "call_partial (Partial d kw) f [] = d f kw"
  by (simp_all add: parametrizeable_decorator_def merge_kwargs_empty)

lemma direct_shape:
  "parametrizeable_decorator d (Some f) kw =
     (case d f kw of Inl e \<Rightarrow> Inl e | Inr g \<Rightarrow> Inr (Inr (wraps f g)))"
  by (simp add: parametrizeable_decorator_def)

text \<open>
  Claim C3. The shapes are not equivalent. By \<open>direct_shape\<close> and \<open>two_step_shape\<close>,
  \<^verbatim>\<open>wrapped(f, **opts)\<close> is \<^verbatim>\<open>wraps(f)(deco(f, **opts))\<close> while \<^verbatim>\<open>wrapped(**opts)(f)\<close> is
  \<^verbatim>\<open>deco(f, **opts)\<close> with no \<^verbatim>\<open>wraps\<close>. For a \<^verbatim>\<open>deco\<close> that returns a new function named
  \<^verbatim>\<open>wrapper\<close> and the target \<^verbatim>\<open>f\<close>: called directly, the result is named \<^verbatim>\<open>f\<close> and has
  \<^verbatim>\<open>__wrapped__ = f\<close>; called in two steps, it is named \<^verbatim>\<open>wrapper\<close> and has no
  \<^verbatim>\<open>__wrapped__\<close>.
\<close>

theorem parametrized_shape_drops_metadata:
  "parametrizeable_decorator example_deco (Some example_f) [] =
     Inr (Inr (PyFunc ''f'' inner_params (Some example_f) None None None))
   \<and> parametrizeable_decorator example_deco None [] = Inr (Inl (Partial example_deco []))
   \<and> call_partial (Partial example_deco []) example_f [] =
       Inr (PyFunc ''wrapper'' inner_params None None None None)"
  by (simp add: parametrizeable_decorator_def merge_kwargs_def wraps_def example_deco_def
      example_f_def)

end
